theory Spec2Isabelle
  imports Main "HOL-Library.Word"
begin

section \<open>pthread-lib: the thread-pool layer of multi\_thread.c\<close>

text \<open>
  The file keeps its whole state in global variables and reaches the outside through
  libc and pthread calls. The embedding keeps the globals in one record that every
  operation takes and returns, and takes the result of every outside call from a
  \<open>world\<close> record, so that each theorem holds whatever those calls answer.

  C \<open>int\<close> values that are only stored, copied and compared (the pool size, the
  indices, the status values, the return codes) are HOL integers; the one place
  where \<open>int\<close> arithmetic can overflow, the millisecond conversion of
  \<open>timed_wait_milli\<close>, is done on 32-bit words, and the \<open>long\<close> fields of
  \<open>struct timeval\<close> and \<open>struct timespec\<close> are 64-bit words (LP64).
\<close>

subsection \<open>Memory blocks and faults\<close>

text \<open>
  A pointer is \<open>None\<close> for NULL or a block: the address malloc returned and the
  cells behind it. Reading or writing through NULL or outside the block is undefined
  behaviour in C; the model stops there with a fault.
\<close>

record 'a block =
  addr :: nat
  cells :: "'a list"

datatype fault = Null_pointer | Out_of_bounds int

definition load :: "'a block option \<Rightarrow> int \<Rightarrow> fault + 'a" where
  "load p i =
     (case p of
        None \<Rightarrow> Inl Null_pointer
      | Some b \<Rightarrow>
          if 0 \<le> i \<and> i < int (length (cells b)) then Inr (cells b ! nat i)
          else Inl (Out_of_bounds i))"

definition store :: "'a block option \<Rightarrow> int \<Rightarrow> 'a \<Rightarrow> fault + 'a block" where
  "store p i v =
     (case p of
        None \<Rightarrow> Inl Null_pointer
      | Some b \<Rightarrow>
          if 0 \<le> i \<and> i < int (length (cells b))
          then Inr (b\<lparr>cells := (cells b)[nat i := v]\<rparr>)
          else Inl (Out_of_bounds i))"

subsection \<open>Time values\<close>

text \<open>
  \<open>struct timeval\<close> (\<open>tv_sec\<close>, \<open>tv_usec\<close>) and \<open>struct timespec\<close>, whose
  fields \<open>tv_sec\<close> and \<open>tv_nsec\<close> are named \<open>ts_sec\<close> and \<open>ts_nsec\<close> here
  to keep the two records apart.
\<close>

record timeval =
  tv_sec :: "64 word"
  tv_usec :: "64 word"

record timespec =
  ts_sec :: "64 word"
  ts_nsec :: "64 word"

subsection \<open>Observable effects\<close>

text \<open>
  The trace lists, in program order, the lines the code logs and the thread, clock and
  wait calls it makes. A \<open>printf\<close> is kept as its format string and arguments.
\<close>

type_synonym pthread_t = "64 word"

datatype arg = Str string | Num int

datatype event =
    Log_error string string
  | Check_status int string string
  | Printf string "arg list"
  | Pthread_create nat int
  | Pthread_join nat pthread_t int
  | Gettimeofday int
  | Cond_timedwait timespec int

subsection \<open>The global variables\<close>

record globals =
  thread_pool :: "pthread_t block option"
  pool_size :: int
  status_array :: "int block option"
  sizeof_status_array :: int
  thread_hold :: int
  thread_stop :: int
  trace :: "event list"

text \<open>The initialisers of the file; \<open>thread_hold\<close> has none and is zero as a static.\<close>

definition init_globals :: globals where
  "init_globals =
     \<lparr>thread_pool = None, pool_size = 1, status_array = None,
      sizeof_status_array = 0, thread_hold = 0, thread_stop = 0, trace = []\<rparr>"

definition CLASS_NM :: string where
  "CLASS_NM = ''multi_thread.c''"

subsection \<open>The world outside the file\<close>

datatype mutex_fn = Mutex_init | Mutex_lock | Mutex_unlock | Mutex_destroy

datatype mutex_id =
  Thread_pool_mutex | Pool_size_mutex | Stop_mutex | Status_array_mutex | Timed_wait_mutex

text \<open>
  What malloc answers: NULL, or a fresh block at some address whose cells hold whatever
  the memory held before (malloc does not clear it).
\<close>

datatype 'a malloc_result = Null | Fresh nat "nat \<Rightarrow> 'a"

text \<open>How a wait on the call-local condition variable ends.\<close>

datatype wake = Timed_out | Woken

text \<open>
  \<open>ERROR_CODE_MALLOC\<close> is a constant of util.h, which is not among the sources; it
  is a parameter of the model. The other fields are the answers of the library:
  the status of each mutex call, the status of destroying the local condition
  variable, what \<open>pthread_create\<close> answers for slot \<open>i\<close> (status and thread id), the
  status of joining slot \<open>i\<close>, what the two mallocs return, what \<open>gettimeofday\<close>
  returns and stores, and how the timed wait ends.
\<close>

record world =
  ERROR_CODE_MALLOC :: int
  mutex_rc :: "mutex_fn \<Rightarrow> mutex_id \<Rightarrow> int"
  cond_destroy_rc :: int
  create_rc :: "nat \<Rightarrow> int \<times> pthread_t"
  join_rc :: "nat \<Rightarrow> int"
  malloc_threads :: "pthread_t malloc_result"
  malloc_status :: "int malloc_result"
  gettimeofday_rc :: "int \<times> timeval"
  wake :: wake

subsection \<open>Outcomes\<close>

text \<open>
  An operation returns a value and the new globals, or ends the process through
  \<open>exit\<close> with a status, or runs into undefined behaviour.
\<close>

datatype 'a outcome = Return 'a globals | Exit int globals | Fault fault

subsection \<open>The macros of util.h\<close>

definition emit :: "event \<Rightarrow> globals \<Rightarrow> globals" where
  "emit e s = s\<lparr>trace := trace s @ [e]\<rparr>"

text \<open>
  Modelled from the spec: \<open>LOG_ERROR\<close> of util.h is missing; the spec has it write a
  log line and do nothing else.
\<close>

definition LOG_ERROR :: "string \<Rightarrow> string \<Rightarrow> globals \<Rightarrow> globals" where
  "LOG_ERROR method_nm msg s = emit (Log_error method_nm msg) s"

text \<open>
  Modelled from the spec: \<open>CHECK_STATUS\<close> of util.h is missing; the spec has a failed
  pthread call logged with its status code, after which the caller goes on (section 4.2,
  join failure; section 7).
\<close>

definition CHECK_STATUS :: "int \<Rightarrow> string \<Rightarrow> string \<Rightarrow> globals \<Rightarrow> globals" where
  "CHECK_STATUS status api msg s =
     (if status \<noteq> 0 then emit (Check_status status api msg) s else s)"

text \<open>
  Modelled from the spec: \<open>FREE\<close> of util.h is missing; the spec has it release the
  block; the pointer is NULL afterwards.
\<close>

definition FREE :: "'a block option \<Rightarrow> 'a block option" where
  "FREE p = None"

text \<open>
  \<open>malloc(n * sizeof(elem))\<close> for an \<open>int\<close> count \<open>n\<close>. The count is converted to
  \<open>size_t\<close> before the product, so a negative count asks for more than half the
  address space, which no malloc grants; otherwise the world decides.
\<close>

definition malloc_cells :: "'a malloc_result \<Rightarrow> int \<Rightarrow> 'a block option" where
  "malloc_cells r n =
     (if n < 0 then None
      else case r of
             Null \<Rightarrow> None
           | Fresh a junk \<Rightarrow> Some \<lparr>addr = a, cells = map junk [0..<nat n]\<rparr>)"

subsection \<open>Mutex wrappers\<close>

definition lock_stop :: "world \<Rightarrow> globals \<Rightarrow> globals" where
  "lock_stop w s =
     CHECK_STATUS (mutex_rc w Mutex_lock Stop_mutex)
       ''pthread_mutex_lock'' ''bad status (stop_mutex)'' s"

definition unlock_stop :: "world \<Rightarrow> globals \<Rightarrow> globals" where
  "unlock_stop w s =
     CHECK_STATUS (mutex_rc w Mutex_unlock Stop_mutex)
       ''pthread_mutex_unlock'' ''bad status (stop_mutex)'' s"

definition lock_status_array :: "world \<Rightarrow> globals \<Rightarrow> globals" where
  "lock_status_array w s =
     CHECK_STATUS (mutex_rc w Mutex_lock Status_array_mutex)
       ''pthread_mutex_lock'' ''bad status (status_array_mutex)'' s"

definition unlock_status_array :: "world \<Rightarrow> globals \<Rightarrow> globals" where
  "unlock_status_array w s =
     CHECK_STATUS (mutex_rc w Mutex_unlock Status_array_mutex)
       ''pthread_mutex_lock'' ''bad status (status_array_mutex)'' s"

definition lock_thread_pool :: "world \<Rightarrow> globals \<Rightarrow> globals" where
  "lock_thread_pool w s =
     CHECK_STATUS (mutex_rc w Mutex_lock Thread_pool_mutex)
       ''pthread_mutex_lock'' ''bad status (thread_pool_mutex)'' s"

definition unlock_thread_pool :: "world \<Rightarrow> globals \<Rightarrow> globals" where
  "unlock_thread_pool w s =
     CHECK_STATUS (mutex_rc w Mutex_unlock Thread_pool_mutex)
       ''pthread_mutex_lock'' ''bad status (thread_pool_mutex)'' s"

definition lock_pool_size :: "world \<Rightarrow> globals \<Rightarrow> globals" where
  "lock_pool_size w s =
     CHECK_STATUS (mutex_rc w Mutex_lock Pool_size_mutex)
       ''pthread_mutex_lock'' ''bad status (pool_size_mutex)'' s"

definition unlock_pool_size :: "world \<Rightarrow> globals \<Rightarrow> globals" where
  "unlock_pool_size w s =
     CHECK_STATUS (mutex_rc w Mutex_unlock Pool_size_mutex)
       ''pthread_mutex_lock'' ''bad status (pool_size_mutex)'' s"

definition create_local_mutexes :: "world \<Rightarrow> globals \<Rightarrow> globals" where
  "create_local_mutexes w s =
     (let s1 = CHECK_STATUS (mutex_rc w Mutex_init Stop_mutex)
                 ''pthread_mutex_init'' ''stop_mutex bad status'' s;
          s2 = CHECK_STATUS (mutex_rc w Mutex_init Thread_pool_mutex)
                 ''pthread_mutex_init'' ''thread_pool_mutex bad status'' s1;
          s3 = CHECK_STATUS (mutex_rc w Mutex_init Pool_size_mutex)
                 ''pthread_mutex_init'' ''pool_size_mutex bad status'' s2
      in CHECK_STATUS (mutex_rc w Mutex_init Status_array_mutex)
           ''pthread_mutex_init'' ''status_array_mutex bad status'' s3)"

definition destroy_all_mutexes :: "world \<Rightarrow> globals \<Rightarrow> globals" where
  "destroy_all_mutexes w s =
     (let s1 = CHECK_STATUS (mutex_rc w Mutex_destroy Stop_mutex)
                 ''pthread_mutex_destroy'' ''bad status (stop_mutex)'' s;
          s2 = CHECK_STATUS (mutex_rc w Mutex_destroy Thread_pool_mutex)
                 ''pthread_mutex_destroy'' ''bad status (thread_pool_mutex)'' s1;
          s3 = CHECK_STATUS (mutex_rc w Mutex_destroy Pool_size_mutex)
                 ''pthread_mutex_destroy'' ''bad status (pool_size_mutex)'' s2
      in CHECK_STATUS (mutex_rc w Mutex_destroy Status_array_mutex)
           ''pthread_mutex_destroy'' ''bad status (status_array_mutex)'' s3)"

subsection \<open>The stop flag and the pool size\<close>

definition stop_threads :: "world \<Rightarrow> globals \<Rightarrow> globals" where
  "stop_threads w s = unlock_stop w ((lock_stop w s)\<lparr>thread_stop := 1\<rparr>)"

definition should_stop :: "world \<Rightarrow> globals \<Rightarrow> int \<times> globals" where
  "should_stop w s =
     (let s1 = lock_stop w s;
          should_stop = thread_stop s1
      in (should_stop, unlock_stop w s1))"

definition set_stop :: "world \<Rightarrow> int \<Rightarrow> globals \<Rightarrow> globals" where
  "set_stop w stop s = unlock_stop w ((lock_stop w s)\<lparr>thread_stop := stop\<rparr>)"

definition get_pool_size :: "world \<Rightarrow> globals \<Rightarrow> int \<times> globals" where
  "get_pool_size w s =
     (let s1 = lock_pool_size w s;
          size = pool_size s1
      in (size, unlock_pool_size w s1))"

subsection \<open>Creating the pool\<close>

text \<open>
  One round of the start-up loop: \<open>pthread_create\<close> stores the new thread's id in
  slot \<open>i\<close> when it succeeds and leaves the slot alone when it fails.
\<close>

definition start_thread :: "world \<Rightarrow> int \<Rightarrow> globals \<Rightarrow> fault + globals" where
  "start_thread w i s =
     (let (status, h) = create_rc w (nat i);
          s1 = emit (Pthread_create (nat i) status) s
      in if status = 0
         then (case store (thread_pool s1) i h of
                 Inl f \<Rightarrow> Inl f
               | Inr b \<Rightarrow>
                   Inr (CHECK_STATUS status ''pthread_create'' ''thread bad status''
                          (s1\<lparr>thread_pool := Some b\<rparr>)))
         else Inr (CHECK_STATUS status ''pthread_create'' ''thread bad status'' s1))"

function create_loop :: "world \<Rightarrow> int \<Rightarrow> globals \<Rightarrow> unit outcome" where
  "create_loop w i s =
     (if i < pool_size s
      then (case start_thread w i s of
              Inl f \<Rightarrow> Fault f
            | Inr s' \<Rightarrow> create_loop w (i + 1) s')
      else Return () s)"
  by pat_completeness auto
termination
  by (relation "measure (\<lambda>(w, i, s). nat (pool_size s - i))")
     (auto simp: start_thread_def emit_def CHECK_STATUS_def Let_def
           split: prod.splits if_splits sum.splits)

declare create_loop.simps [simp del]

definition create_threads :: "world \<Rightarrow> int \<Rightarrow> globals \<Rightarrow> pthread_t block option outcome" where
  "create_threads w num_threads s =
     (let s1 = s\<lparr>pool_size := num_threads\<rparr>;
          s2 = s1\<lparr>thread_pool := malloc_cells (malloc_threads w) (pool_size s1)\<rparr>
      in if thread_pool s2 = None
         then Exit (ERROR_CODE_MALLOC w)
                (LOG_ERROR ''create_threads: '' ''Could not create threads!'' s2)
         else (let s3 = create_local_mutexes w s2;
                   s4 = s3\<lparr>thread_stop := 0\<rparr>
               in case create_loop w 0 s4 of
                    Return u s5 \<Rightarrow> Return (thread_pool s5) s5
                  | Exit c s5 \<Rightarrow> Exit c s5
                  | Fault f \<Rightarrow> Fault f))"

subsection \<open>Joining the pool\<close>

text \<open>
  The two lines that both branches of the loop share: \<open>pthread_join\<close> on the handle
  read from slot \<open>i\<close>, then \<open>CHECK_STATUS\<close> on its status. \<open>join_step\<close> is one
  round of the loop.
\<close>

definition pthread_join :: "world \<Rightarrow> int \<Rightarrow> globals \<Rightarrow> fault + globals" where
  "pthread_join w i s =
     (case load (thread_pool s) i of
        Inl f \<Rightarrow> Inl f
      | Inr h \<Rightarrow>
          (let status = join_rc w (nat i)
           in Inr (CHECK_STATUS status ''pthread_join'' ''bad status''
                     (emit (Pthread_join (nat i) h status) s))))"

definition join_step :: "world \<Rightarrow> int block option \<Rightarrow> int \<Rightarrow> int \<Rightarrow> globals \<Rightarrow> fault + globals" where
  "join_step w t_status will_check_status i s =
     (if will_check_status \<noteq> 0
      then (case load t_status i of
              Inl f \<Rightarrow> Inl f
            | Inr t \<Rightarrow>
                if t \<noteq> 0 then pthread_join w i s
                else Inr (emit (Printf ''%s Thread [%d] is hung, not joining\<newline>''
                                  [Str ''join_threads: '', Num (i + 1)]) s))
      else pthread_join w i
             (emit (Printf ''%s Going to stop thread [%d]\<newline>''
                      [Str ''join_threads: '', Num (i + 1)]) s))"

function join_loop :: "world \<Rightarrow> int block option \<Rightarrow> int \<Rightarrow> int \<Rightarrow> globals \<Rightarrow> unit outcome" where
  "join_loop w t_status will_check_status i s =
     (if i < pool_size s
      then (case join_step w t_status will_check_status i s of
              Inl f \<Rightarrow> Fault f
            | Inr s' \<Rightarrow> join_loop w t_status will_check_status (i + 1) s')
      else Return () s)"
  by pat_completeness auto
termination
  by (relation "measure (\<lambda>(w, t, c, i, s). nat (pool_size s - i))")
     (auto simp: join_step_def pthread_join_def emit_def CHECK_STATUS_def Let_def
           split: if_splits sum.splits)

declare join_loop.simps [simp del]

definition join_threads :: "world \<Rightarrow> int block option \<Rightarrow> globals \<Rightarrow> unit outcome" where
  "join_threads w t_status s =
     (let will_check_status = (if t_status = None then 0 else 1);
          s1 = (if t_status = None
                then emit (Printf ''%s Joining on ALL threads reguardless of state \<newline>''
                             [Str ''join_threads: '']) s
                else s)
      in case join_loop w t_status will_check_status 0 s1 of
           Return u s2 \<Rightarrow>
             (let s3 = emit (Printf ''%s Threads Stopped Successfully\<newline>''
                               [Str ''join_threads: '']) s2;
                  s4 = s3\<lparr>thread_pool := FREE (thread_pool s3)\<rparr>
              in Return () (destroy_all_mutexes w s4))
         | Exit c s2 \<Rightarrow> Exit c s2
         | Fault f \<Rightarrow> Fault f)"

subsection \<open>Timed waits\<close>

text \<open>
  The errno values of Linux. \<open>pthread_cond_timedwait\<close> follows POSIX: it refuses a
  deadline whose nanoseconds are negative or at least 1000 million with \<open>EINVAL\<close>,
  returns \<open>ETIMEDOUT\<close> when the deadline passes with no wake-up, and 0 when the
  wait is ended by a wake-up (nothing signals the call-local condition variable, so
  that is a spurious one).
\<close>

definition EINVAL :: int where
  "EINVAL = 22"

definition ETIMEDOUT :: int where
  "ETIMEDOUT = 110"

definition pthread_cond_timedwait :: "world \<Rightarrow> timespec \<Rightarrow> int" where
  "pthread_cond_timedwait w ts =
     (if sint (ts_nsec ts) < 0 \<or> 1000000000 \<le> sint (ts_nsec ts) then EINVAL
      else case wake w of Timed_out \<Rightarrow> ETIMEDOUT | Woken \<Rightarrow> 0)"

text \<open>
  What both waits do from the lock on: lock the local mutex, wait until \<open>ts\<close>,
  unlock, destroy mutex and condition variable, return the wait's status.
\<close>

definition wait_until :: "world \<Rightarrow> timespec \<Rightarrow> globals \<Rightarrow> int \<times> globals" where
  "wait_until w ts s =
     (let rc = pthread_cond_timedwait w ts;
          s1 = emit (Cond_timedwait ts rc) s;
          s2 = CHECK_STATUS (mutex_rc w Mutex_unlock Timed_wait_mutex)
                 ''pthread_mutex_unlock'' ''bad status (timed_wait_mutex)'' s1;
          s3 = CHECK_STATUS (mutex_rc w Mutex_destroy Timed_wait_mutex)
                 ''pthread_mutex_destroy'' ''bad status (timed_wait_mutex)'' s2;
          s4 = CHECK_STATUS (cond_destroy_rc w)
                 ''pthread_cond_destroy'' ''bad status (timed_wait_cond)'' s3
      in (rc, s4))"

definition timed_wait :: "world \<Rightarrow> 32 word \<Rightarrow> globals \<Rightarrow> int \<times> globals" where
  "timed_wait w wait_secs s =
     (let (rc, tp) = gettimeofday_rc w;
          s1 = emit (Gettimeofday rc) s
      in if rc \<noteq> 0
         then (rc, LOG_ERROR ''timed_wait: '' ''gettimeofday failed in timed_wait'' s1)
         else (let s2 = CHECK_STATUS (mutex_rc w Mutex_lock Timed_wait_mutex)
                          ''pthread_mutex_lock'' ''bad status (timed_wait_mutex)'' s1;
                   ts = \<lparr>ts_sec = tv_sec tp, ts_nsec = tv_usec tp * 1000\<rparr>;
                   ts = ts\<lparr>ts_sec := ts_sec ts + scast wait_secs\<rparr>
               in wait_until w ts s2))"

text \<open>
  \<open>wait_secs *= 1000000\<close> is a product of two \<open>int\<close>s: it is taken on 32-bit words,
  the two's-complement result every usual compiler gives where C leaves the overflow
  undefined. The sum with \<open>tv_usec\<close> is a \<open>long\<close> sum: the product is sign-extended.
\<close>

definition timed_wait_milli :: "world \<Rightarrow> 32 word \<Rightarrow> globals \<Rightarrow> int \<times> globals" where
  "timed_wait_milli w wait_secs s =
     (if sint wait_secs \<le> 0 then (0, s)
      else (let (rc, tp) = gettimeofday_rc w;
                s1 = emit (Gettimeofday rc) s
            in if rc \<noteq> 0
               then (rc, LOG_ERROR ''timed_wait_milli: '' ''gettimeofday failed'' s1)
               else (let s2 = CHECK_STATUS (mutex_rc w Mutex_lock Timed_wait_mutex)
                                ''pthread_mutex_lock'' ''bad status (timed_wait_mutex)'' s1;
                         wait_secs = wait_secs * 1000000;
                         ts = \<lparr>ts_sec = tv_sec tp, ts_nsec = tv_usec tp + scast wait_secs\<rparr>
                     in wait_until w ts s2)))"

subsection \<open>Looking up a thread's index\<close>

function find_loop :: "pthread_t \<Rightarrow> int \<Rightarrow> int \<Rightarrow> globals \<Rightarrow> fault + int" where
  "find_loop thread i sz s =
     (if i < sz
      then (case load (thread_pool s) i of
              Inl f \<Rightarrow> Inl f
            | Inr h \<Rightarrow> if thread = h then Inr i else find_loop thread (i + 1) sz s)
      else Inr i)"
  by pat_completeness auto
termination
  by (relation "measure (\<lambda>(t, i, sz, s). nat (sz - i))") auto

declare find_loop.simps [simp del]

definition find_my_index :: "world \<Rightarrow> pthread_t \<Rightarrow> globals \<Rightarrow> int outcome" where
  "find_my_index w thread s =
     (let (sz, s1) = get_pool_size w s;
          s2 = lock_thread_pool w s1
      in case find_loop thread 0 sz s2 of
           Inl f \<Rightarrow> Fault f
         | Inr i \<Rightarrow>
             (let s3 = unlock_thread_pool w s2
              in if i \<ge> sz
                 then Return (- 1)
                        (LOG_ERROR ''find_my_index: ''
                           ''Unable to match any thread in thread_pool'' s3)
                 else Return i s3))"

subsection \<open>The status array\<close>

definition create_status_array :: "world \<Rightarrow> globals \<Rightarrow> unit outcome" where
  "create_status_array w s =
     (let s1 = lock_status_array w s;
          s2 = s1\<lparr>status_array := FREE (status_array s1)\<rparr>;
          s3 = s2\<lparr>sizeof_status_array := pool_size s2\<rparr>;
          s4 = s3\<lparr>status_array :=
                    malloc_cells (malloc_status w) (sizeof_status_array s3)\<rparr>;
          (rc, s5) = (if status_array s4 = None
                      then (ERROR_CODE_MALLOC w,
                            LOG_ERROR ''create_status_array: ''
                              ''Unable to malloc memory for status_array'' s4)
                      else (0, s4));
          s6 = unlock_status_array w s5
      in if rc \<noteq> 0 then Exit rc s6 else Return () s6)"

text \<open>
  \<open>memset(p, 0, sizeof(int) * n)\<close>: a length of zero touches nothing; otherwise the
  first \<open>n\<close> cells of the block become 0, and a NULL pointer, a negative \<open>n\<close> (a huge
  \<open>size_t\<close>) or an \<open>n\<close> past the end of the block is a fault.
\<close>

definition memset_zero :: "int block option \<Rightarrow> int \<Rightarrow> fault + int block option" where
  "memset_zero p n =
     (if n = 0 then Inr p
      else case p of
             None \<Rightarrow> Inl Null_pointer
           | Some b \<Rightarrow>
               if 0 < n \<and> n \<le> int (length (cells b))
               then Inr (Some (b\<lparr>cells := replicate (nat n) 0 @ drop (nat n) (cells b)\<rparr>))
               else Inl (Out_of_bounds n))"

definition init_status_array :: "world \<Rightarrow> globals \<Rightarrow> unit outcome" where
  "init_status_array w s =
     (if pool_size s \<noteq> sizeof_status_array s then create_status_array w s
      else (let s1 = lock_status_array w s
            in case memset_zero (status_array s1) (sizeof_status_array s1) of
                 Inl f \<Rightarrow> Fault f
               | Inr p \<Rightarrow> Return () (unlock_status_array w (s1\<lparr>status_array := p\<rparr>))))"

definition get_status_array :: "world \<Rightarrow> globals \<Rightarrow> int block option \<times> globals" where
  "get_status_array w s =
     (let s1 = lock_status_array w s;
          sa = status_array s1
      in (sa, unlock_status_array w s1))"

definition set_status_element :: "world \<Rightarrow> int \<Rightarrow> int \<Rightarrow> globals \<Rightarrow> bool outcome" where
  "set_status_element w index status s =
     (let s1 = lock_status_array w s
      in if index < sizeof_status_array s1
         then (case store (status_array s1) index status of
                 Inl f \<Rightarrow> Fault f
               | Inr b \<Rightarrow> Return True (unlock_status_array w (s1\<lparr>status_array := Some b\<rparr>)))
         else Return False (unlock_status_array w s1))"

subsection \<open>Sequences of calls\<close>

text \<open>
  One constructor per public function of the file, with its arguments. A sequence of
  calls runs from left to right, each call with the world it meets, and stops when the
  process exits or faults.
\<close>

datatype op =
    Create_threads int
  | Join_threads "int block option"
  | Timed_wait "32 word"
  | Timed_wait_milli "32 word"
  | Find_my_index pthread_t
  | Stop_threads
  | Should_stop
  | Set_stop int
  | Get_pool_size
  | Create_status_array
  | Init_status_array
  | Get_status_array
  | Set_status_element int int

definition forget :: "'a outcome \<Rightarrow> unit outcome" where
  "forget r = (case r of Return v s \<Rightarrow> Return () s | Exit c s \<Rightarrow> Exit c s | Fault f \<Rightarrow> Fault f)"

fun run_op :: "world \<Rightarrow> op \<Rightarrow> globals \<Rightarrow> unit outcome" where
  "run_op w (Create_threads n) s = forget (create_threads w n s)"
| "run_op w (Join_threads t) s = join_threads w t s"
| "run_op w (Timed_wait n) s = Return () (snd (timed_wait w n s))"
| "run_op w (Timed_wait_milli n) s = Return () (snd (timed_wait_milli w n s))"
| "run_op w (Find_my_index h) s = forget (find_my_index w h s)"
| "run_op w Stop_threads s = Return () (stop_threads w s)"
| "run_op w Should_stop s = Return () (snd (should_stop w s))"
| "run_op w (Set_stop v) s = Return () (set_stop w v s)"
| "run_op w Get_pool_size s = Return () (snd (get_pool_size w s))"
| "run_op w Create_status_array s = create_status_array w s"
| "run_op w Init_status_array s = init_status_array w s"
| "run_op w Get_status_array s = Return () (snd (get_status_array w s))"
| "run_op w (Set_status_element i v) s = forget (set_status_element w i v s)"

fun run :: "(world \<times> op) list \<Rightarrow> globals \<Rightarrow> unit outcome" where
  "run [] s = Return () s"
| "run ((w, c) # rest) s =
     (case run_op w c s of
        Return u s' \<Rightarrow> run rest s'
      | Exit code s' \<Rightarrow> Exit code s'
      | Fault f \<Rightarrow> Fault f)"

subsection \<open>Notions used in the statements\<close>

text \<open>The calls that write \<open>pool_size\<close>, and the calls that clear the stop flag.\<close>

fun is_create :: "op \<Rightarrow> bool" where
  "is_create (Create_threads n) = True"
| "is_create c = False"

fun resets_stop :: "op \<Rightarrow> bool" where
  "resets_stop (Create_threads n) = True"
| "resets_stop (Set_stop v) = (v = 0)"
| "resets_stop c = False"

text \<open>
  What \<open>should_stop\<close> answers after a sequence of calls; \<open>None\<close> when the process
  did not live through them.
\<close>

definition should_stop_after :: "(world \<times> op) list \<Rightarrow> world \<Rightarrow> globals \<Rightarrow> int option" where
  "should_stop_after calls w s =
     (case run calls s of
        Return u s' \<Rightarrow> Some (fst (should_stop w s'))
      | Exit code s' \<Rightarrow> None
      | Fault f \<Rightarrow> None)"

text \<open>The deadlines of the timed waits recorded in a trace, in order.\<close>

fun deadlines :: "event list \<Rightarrow> timespec list" where
  "deadlines [] = []"
| "deadlines (Cond_timedwait ts rc # es) = ts # deadlines es"
| "deadlines (e # es) = deadlines es"

text \<open>
  What a trace says about threads: the slots and thread ids joined, the thread numbers of
  the lines that report a worker as hung and not joined (the code prints slot \<open>i\<close> as
  \<open>i + 1\<close>), and the slots for which \<open>pthread_create\<close> was called.
\<close>

fun joined :: "event list \<Rightarrow> (nat \<times> pthread_t) list" where
  "joined [] = []"
| "joined (Pthread_join i h st # es) = (i, h) # joined es"
| "joined (e # es) = joined es"

fun skipped :: "event list \<Rightarrow> int list" where
  "skipped [] = []"
| "skipped (Printf fmt args # es) =
     (if fmt = ''%s Thread [%d] is hung, not joining\<newline>''
      then (case args of [m, Num k] \<Rightarrow> k # skipped es | _ \<Rightarrow> skipped es)
      else skipped es)"
| "skipped (e # es) = skipped es"

fun started :: "event list \<Rightarrow> nat list" where
  "started [] = []"
| "started (Pthread_create i st # es) = i # started es"
| "started (e # es) = started es"

text \<open>
  The condition under which claim C4 has worker \<open>i\<close> joined: no liveness argument,
  or its \<open>i\<close>-th entry true.
\<close>

definition wanted :: "int block option \<Rightarrow> nat \<Rightarrow> bool" where
  "wanted t_status i = (case t_status of None \<Rightarrow> True | Some l \<Rightarrow> cells l ! i \<noteq> 0)"





text \<open>
  A world in which every library call succeeds, malloc hands out blocks that still hold
  old data, the clock reads a quarter second past a full second, and a wait runs to its
  deadline.
\<close>

definition example_world :: world where
  "example_world =
     \<lparr>ERROR_CODE_MALLOC = 1,
      mutex_rc = (\<lambda>f m. 0),
      cond_destroy_rc = 0,
      create_rc = (\<lambda>i. (0, 100 + of_nat i)),
      join_rc = (\<lambda>i. 0),
      malloc_threads = Fresh 4096 (\<lambda>i. 0),
      malloc_status = Fresh 8192 (\<lambda>i. 7),
      gettimeofday_rc = (0, \<lparr>tv_sec = 1700000000, tv_usec = 250000\<rparr>),
      wake = Timed_out\<rparr>"

text \<open>
  The same world with both mallocs failing and a clock that cannot be read.
\<close>

definition failing_world :: world where
  "failing_world =
     example_world\<lparr>malloc_threads := Null, malloc_status := Null,
                   gettimeofday_rc := (- 1, \<lparr>tv_sec = 0, tv_usec = 0\<rparr>)\<rparr>"


text \<open>
  Two sets of globals for the examples: the initial ones after \<open>create_status_array\<close>
  in the example world (one slot, holding what malloc left there), and the initial ones
  after a pool of three workers was created there.
\<close>

definition one_slot :: globals where
  "one_slot = init_globals\<lparr>status_array := Some \<lparr>addr = 8192, cells = [7]\<rparr>,
                            sizeof_status_array := 1\<rparr>"

definition three_workers :: globals where
  "three_workers =
     init_globals\<lparr>thread_pool := Some \<lparr>addr = 4096, cells = [100, 101, 102]\<rparr>,
                  pool_size := 3,
                  trace := [Pthread_create 0 0, Pthread_create 1 0, Pthread_create 2 0]\<rparr>"

section \<open>What the logging macros and mutex wrappers leave alone\<close>

lemma emit_frame [simp]:
  "thread_pool (emit e s) = thread_pool s"
  "pool_size (emit e s) = pool_size s"
  "status_array (emit e s) = status_array s"
  "sizeof_status_array (emit e s) = sizeof_status_array s"
  "thread_hold (emit e s) = thread_hold s"
  "thread_stop (emit e s) = thread_stop s"
  "trace (emit e s) = trace s @ [e]"
  by (simp_all add: emit_def)

lemma CHECK_STATUS_frame [simp]:
  "thread_pool (CHECK_STATUS st a m s) = thread_pool s"
  "pool_size (CHECK_STATUS st a m s) = pool_size s"
  "status_array (CHECK_STATUS st a m s) = status_array s"
  "sizeof_status_array (CHECK_STATUS st a m s) = sizeof_status_array s"
  "thread_hold (CHECK_STATUS st a m s) = thread_hold s"
  "thread_stop (CHECK_STATUS st a m s) = thread_stop s"
  by (simp_all add: CHECK_STATUS_def)

lemma CHECK_STATUS_trace:
  "trace (CHECK_STATUS st a m s) =
     trace s @ (if st \<noteq> 0 then [Check_status st a m] else [])"
  by (simp add: CHECK_STATUS_def)

lemma LOG_ERROR_frame [simp]:
  "thread_pool (LOG_ERROR a m s) = thread_pool s"
  "pool_size (LOG_ERROR a m s) = pool_size s"
  "status_array (LOG_ERROR a m s) = status_array s"
  "sizeof_status_array (LOG_ERROR a m s) = sizeof_status_array s"
  "thread_hold (LOG_ERROR a m s) = thread_hold s"
  "thread_stop (LOG_ERROR a m s) = thread_stop s"
  "trace (LOG_ERROR a m s) = trace s @ [Log_error a m]"
  by (simp_all add: LOG_ERROR_def)

lemmas wrappers =
  lock_stop_def unlock_stop_def lock_status_array_def unlock_status_array_def
  lock_thread_pool_def unlock_thread_pool_def lock_pool_size_def unlock_pool_size_def
  create_local_mutexes_def destroy_all_mutexes_def

lemma get_pool_size_value: "fst (get_pool_size w s) = pool_size s"
  by (simp add: get_pool_size_def Let_def wrappers)

lemma should_stop_value: "fst (should_stop w s) = thread_stop s"
  by (simp add: should_stop_def Let_def wrappers)

lemma stop_threads_flag: "thread_stop (stop_threads w s) = 1"
  by (simp add: stop_threads_def wrappers)

lemma set_stop_flag: "thread_stop (set_stop w v s) = v"
  by (simp add: set_stop_def wrappers)

lemma start_thread_frame:
  "start_thread w i s = Inr s' \<Longrightarrow>
     pool_size s' = pool_size s \<and> thread_stop s' = thread_stop s
     \<and> status_array s' = status_array s
     \<and> sizeof_status_array s' = sizeof_status_array s"
  by (auto simp: start_thread_def Let_def split: prod.splits if_splits sum.splits)

lemma create_loop_frame:
  "create_loop w i s = Return u s' \<Longrightarrow>
     pool_size s' = pool_size s \<and> thread_stop s' = thread_stop s
     \<and> status_array s' = status_array s
     \<and> sizeof_status_array s' = sizeof_status_array s"
proof (induction w i s rule: create_loop.induct)
  case (1 w i s)
  show ?case
  proof (cases "i < pool_size s")
    case False
    with "1.prems" show ?thesis by (simp add: create_loop.simps)
  next
    case True
    with "1.prems" obtain s1 where st: "start_thread w i s = Inr s1"
      and rest: "create_loop w (i + 1) s1 = Return u s'"
      by (auto simp: create_loop.simps [of w i s] split: sum.splits)
    from "1.IH" [OF True st rest] start_thread_frame [OF st] show ?thesis by simp
  qed
qed

lemma pthread_join_frame:
  "pthread_join w i s = Inr s' \<Longrightarrow>
     pool_size s' = pool_size s \<and> thread_stop s' = thread_stop s
     \<and> thread_pool s' = thread_pool s
     \<and> status_array s' = status_array s
     \<and> sizeof_status_array s' = sizeof_status_array s"
  by (auto simp: pthread_join_def Let_def split: sum.splits)

lemma join_step_frame:
  "join_step w t c i s = Inr s' \<Longrightarrow>
     pool_size s' = pool_size s \<and> thread_stop s' = thread_stop s
     \<and> thread_pool s' = thread_pool s
     \<and> status_array s' = status_array s
     \<and> sizeof_status_array s' = sizeof_status_array s"
  by (auto simp: join_step_def dest: pthread_join_frame split: sum.splits if_splits)

lemma join_loop_frame:
  "join_loop w t c i s = Return u s' \<Longrightarrow>
     pool_size s' = pool_size s \<and> thread_stop s' = thread_stop s
     \<and> thread_pool s' = thread_pool s
     \<and> status_array s' = status_array s
     \<and> sizeof_status_array s' = sizeof_status_array s"
proof (induction w t c i s rule: join_loop.induct)
  case (1 w t c i s)
  show ?case
  proof (cases "i < pool_size s")
    case False
    with "1.prems" show ?thesis by (simp add: join_loop.simps)
  next
    case True
    with "1.prems" obtain s1 where st: "join_step w t c i s = Inr s1"
      and rest: "join_loop w t c (i + 1) s1 = Return u s'"
      by (auto simp: join_loop.simps [of w t c i s] split: sum.splits)
    from "1.IH" [OF True st rest] join_step_frame [OF st] show ?thesis by simp
  qed
qed


lemma wait_until_frame:
  "pool_size (snd (wait_until w ts s)) = pool_size s"
  "thread_stop (snd (wait_until w ts s)) = thread_stop s"
  "thread_pool (snd (wait_until w ts s)) = thread_pool s"
  "status_array (snd (wait_until w ts s)) = status_array s"
  "sizeof_status_array (snd (wait_until w ts s)) = sizeof_status_array s"
  by (simp_all add: wait_until_def Let_def)

lemma timed_wait_frame:
  "pool_size (snd (timed_wait w n s)) = pool_size s"
  "thread_stop (snd (timed_wait w n s)) = thread_stop s"
  "thread_pool (snd (timed_wait w n s)) = thread_pool s"
  "status_array (snd (timed_wait w n s)) = status_array s"
  "sizeof_status_array (snd (timed_wait w n s)) = sizeof_status_array s"
  by (simp_all add: timed_wait_def Let_def wait_until_frame split: prod.splits)

lemma timed_wait_milli_frame:
  "pool_size (snd (timed_wait_milli w n s)) = pool_size s"
  "thread_stop (snd (timed_wait_milli w n s)) = thread_stop s"
  "thread_pool (snd (timed_wait_milli w n s)) = thread_pool s"
  "status_array (snd (timed_wait_milli w n s)) = status_array s"
  "sizeof_status_array (snd (timed_wait_milli w n s)) = sizeof_status_array s"
  by (simp_all add: timed_wait_milli_def Let_def wait_until_frame split: prod.splits)

lemma create_status_array_frame:
  "create_status_array w s = Return u s' \<Longrightarrow>
     pool_size s' = pool_size s \<and> thread_stop s' = thread_stop s
     \<and> thread_pool s' = thread_pool s"
  by (auto simp: create_status_array_def Let_def wrappers split: if_splits prod.splits)

lemma init_status_array_frame:
  "init_status_array w s = Return u s' \<Longrightarrow>
     pool_size s' = pool_size s \<and> thread_stop s' = thread_stop s
     \<and> thread_pool s' = thread_pool s"
  by (auto simp: init_status_array_def Let_def wrappers
           dest: create_status_array_frame split: if_splits sum.splits)

lemma set_status_element_frame:
  "set_status_element w i v s = Return r s' \<Longrightarrow>
     pool_size s' = pool_size s \<and> thread_stop s' = thread_stop s
     \<and> thread_pool s' = thread_pool s"
  by (auto simp: set_status_element_def Let_def wrappers split: if_splits sum.splits)

lemma find_my_index_frame:
  "find_my_index w h s = Return r s' \<Longrightarrow>
     pool_size s' = pool_size s \<and> thread_stop s' = thread_stop s
     \<and> thread_pool s' = thread_pool s"
  by (auto simp: find_my_index_def get_pool_size_def Let_def wrappers
           split: if_splits sum.splits prod.splits)

lemma join_threads_frame:
  "join_threads w t s = Return u s' \<Longrightarrow>
     pool_size s' = pool_size s \<and> thread_stop s' = thread_stop s
     \<and> thread_pool s' = None"
  by (auto simp: join_threads_def Let_def wrappers FREE_def
           dest!: join_loop_frame split: if_splits outcome.splits)

lemma forget_Return: "forget r = Return u s' \<longleftrightarrow> (\<exists>v. r = Return v s')"
  by (cases r) (simp_all add: forget_def)

lemma run_op_pool:
  assumes "run_op w c s = Return u s'" and "\<not> is_create c"
  shows "pool_size s' = pool_size s \<and> (thread_pool s = None \<longrightarrow> thread_pool s' = None)"
proof (cases c)
  case (Join_threads t)
  with assms show ?thesis by (auto dest: join_threads_frame)
next
  case (Find_my_index h)
  with assms show ?thesis by (auto simp: forget_Return dest: find_my_index_frame)
next
  case (Set_status_element i v)
  with assms show ?thesis by (auto simp: forget_Return dest: set_status_element_frame)
next
  case Create_status_array
  with assms show ?thesis by (auto dest: create_status_array_frame)
next
  case Init_status_array
  with assms show ?thesis by (auto dest: init_status_array_frame)
qed (use assms in \<open>auto simp: timed_wait_frame timed_wait_milli_frame stop_threads_def
      should_stop_def set_stop_def get_pool_size_def get_status_array_def Let_def wrappers\<close>)

lemma run_op_stop:
  assumes "run_op w c s = Return u s'" and "\<not> resets_stop c" and "thread_stop s \<noteq> 0"
  shows "thread_stop s' \<noteq> 0"
proof (cases c)
  case (Join_threads t)
  with assms show ?thesis by (auto dest: join_threads_frame)
next
  case (Find_my_index h)
  with assms show ?thesis by (auto simp: forget_Return dest: find_my_index_frame)
next
  case (Set_status_element i v)
  with assms show ?thesis by (auto simp: forget_Return dest: set_status_element_frame)
next
  case Create_status_array
  with assms show ?thesis by (auto dest: create_status_array_frame)
next
  case Init_status_array
  with assms show ?thesis by (auto dest: init_status_array_frame)
qed (use assms in \<open>auto simp: timed_wait_frame timed_wait_milli_frame stop_threads_def
      should_stop_def set_stop_def get_pool_size_def get_status_array_def Let_def wrappers\<close>)

lemma run_pool:
  "run calls s = Return u s' \<Longrightarrow> \<forall>(w, c) \<in> set calls. \<not> is_create c \<Longrightarrow>
     pool_size s' = pool_size s \<and> (thread_pool s = None \<longrightarrow> thread_pool s' = None)"
proof (induction calls arbitrary: s)
  case Nil
  then show ?case by simp
next
  case (Cons a calls)
  obtain w c where a: "a = (w, c)" by (cases a)
  with Cons.prems obtain s1 where one: "run_op w c s = Return () s1"
    and rest: "run calls s1 = Return u s'"
    by (auto split: outcome.splits)
  from Cons.prems a have nc: "\<not> is_create c" and ncs: "\<forall>(w, c) \<in> set calls. \<not> is_create c"
    by auto
  from run_op_pool [OF one nc] Cons.IH [OF rest ncs] show ?case by simp
qed

lemma run_stop:
  "run calls s = Return u s' \<Longrightarrow> \<forall>(w, c) \<in> set calls. \<not> resets_stop c \<Longrightarrow>
     thread_stop s \<noteq> 0 \<Longrightarrow> thread_stop s' \<noteq> 0"
proof (induction calls arbitrary: s)
  case Nil
  then show ?case by simp
next
  case (Cons a calls)
  obtain w c where a: "a = (w, c)" by (cases a)
  with Cons.prems obtain s1 where one: "run_op w c s = Return () s1"
    and rest: "run calls s1 = Return u s'"
    by (auto split: outcome.splits)
  from Cons.prems a have nc: "\<not> resets_stop c"
    and ncs: "\<forall>(w, c) \<in> set calls. \<not> resets_stop c"
    by auto
  from run_op_stop [OF one nc Cons.prems(3)] have "thread_stop s1 \<noteq> 0" .
  from Cons.IH [OF rest ncs this] show ?case .
qed


section \<open>The pool size before the first create\<close>

text \<open>
  Claim C10. Before the first call to create, \<open>get_pool_size\<close> returns 1, the
  initial value of \<open>pool_size\<close>, although there is no handle table yet: after any
  calls of the file's functions other than \<open>create_threads\<close>, made from the initial
  globals, \<open>get_pool_size\<close> answers 1 and \<open>thread_pool\<close> is still NULL.
\<close>

theorem pool_size_is_1_before_create:
  assumes "run calls init_globals = Return u s"
    and "\<forall>(w', c) \<in> set calls. \<not> is_create c"
  shows "fst (get_pool_size w s) = 1 \<and> thread_pool s = None"
proof -
  from run_pool [OF assms]
  have "pool_size s = 1" and "thread_pool s = None"
    by (simp_all add: init_globals_def)
  then show ?thesis by (simp add: get_pool_size_value)
qed

theorem pool_size_is_1_before_create_witness:
  "fst (get_pool_size example_world
          (set_stop example_world 3 (stop_threads example_world init_globals))) = 1
   \<and> thread_pool (set_stop example_world 3 (stop_threads example_world init_globals)) = None"
proof -
  let ?calls = "[(example_world, Stop_threads), (example_world, Set_stop 3)]"
  have r: "run ?calls init_globals
             = Return () (set_stop example_world 3 (stop_threads example_world init_globals))"
    by simp
  have n: "\<forall>(w', c) \<in> set ?calls. \<not> is_create c" by simp
  from pool_size_is_1_before_create [OF r n] show ?thesis .
qed

section \<open>Visibility of the stop flag\<close>

text \<open>
  Against claim C6 as it is worded: \<open>create_threads\<close> is one of the file's other
  operations, and it clears the flag. After \<open>stop_threads\<close> the flag reads 1; after a
  following \<open>create_threads\<close> of one worker \<open>should_stop\<close> answers 0, with no
  \<open>set_stop(0)\<close> in between.
\<close>

theorem stop_visible_counterexample:
  "fst (should_stop example_world (stop_threads example_world init_globals)) = 1
   \<and> should_stop_after [(example_world, Create_threads 1)] example_world
         (stop_threads example_world init_globals) = Some 0"
  by (simp add: should_stop_after_def create_threads_def create_loop.simps start_thread_def
        store_def malloc_cells_def example_world_def init_globals_def stop_threads_def
        should_stop_def wrappers CHECK_STATUS_def emit_def LOG_ERROR_def forget_def Let_def)

text \<open>
  Claim C6, amended. After \<open>stop_threads\<close> has returned, every later \<open>should_stop\<close>
  answers true (non-zero) across any sequence of the file's operations that holds neither
  \<open>set_stop(0)\<close> nor \<open>create_threads\<close>.
\<close>

theorem stop_visible_until_reset:
  assumes "\<forall>(w', c) \<in> set calls. \<not> resets_stop c"
    and "should_stop_after calls w (stop_threads w0 s) = Some v"
  shows "v \<noteq> 0"
proof -
  from assms(2) obtain s' where r: "run calls (stop_threads w0 s) = Return () s'"
    and v: "v = fst (should_stop w s')"
    by (auto simp: should_stop_after_def split: outcome.splits)
  have "thread_stop (stop_threads w0 s) \<noteq> 0" by (simp add: stop_threads_flag)
  from run_stop [OF r assms(1) this] v show ?thesis by (simp add: should_stop_value)
qed

theorem stop_visible_until_reset_witness:
  "should_stop_after [(example_world, Get_pool_size), (example_world, Set_stop 2)]
     example_world (stop_threads example_world init_globals) = Some 2
   \<and> (2 :: int) \<noteq> 0"
proof -
  let ?calls = "[(example_world, Get_pool_size), (example_world, Set_stop 2)]"
  have n: "\<forall>(w', c) \<in> set ?calls. \<not> resets_stop c" by simp
  have v: "should_stop_after ?calls example_world (stop_threads example_world init_globals)
             = Some 2"
    by (simp add: should_stop_after_def should_stop_value set_stop_flag)
  from stop_visible_until_reset [OF n v] v show ?thesis by simp
qed

section \<open>The millisecond wait with a non-positive duration\<close>

text \<open>
  Claim C7. For every \<open>n \<le> 0\<close>, \<open>timed_wait_milli(n)\<close> returns 0 at once: the
  globals, whose trace would record a clock read or a wait, come back as they were.
\<close>

theorem timed_wait_milli_nonpositive:
  "sint n \<le> 0 \<Longrightarrow> timed_wait_milli w n s = (0, s)"
  by (simp add: timed_wait_milli_def)

theorem timed_wait_milli_nonpositive_witness:
  "sint (- 5 :: 32 word) \<le> 0
   \<and> timed_wait_milli example_world (- 5) init_globals = (0, init_globals)"
proof -
  have h: "sint (- 5 :: 32 word) \<le> 0" by simp
  from h timed_wait_milli_nonpositive [OF h] show ?thesis by simp
qed


section \<open>The deadline of the millisecond wait\<close>

lemma deadlines_append: "deadlines (xs @ ys) = deadlines xs @ deadlines ys"
  by (induction xs rule: deadlines.induct) simp_all

lemma deadlines_CHECK_STATUS [simp]:
  "deadlines (trace (CHECK_STATUS st a m s)) = deadlines (trace s)"
  by (simp add: CHECK_STATUS_def deadlines_append)

lemma millis_product:
  "sint (n * 1000000 :: 32 word) = signed_take_bit 31 (sint n * 1000000)"
  by (simp add: sint_word_mult)

lemma millis_exact:
  assumes "0 < sint n" and "sint n \<le> 2147"
  shows "sint (n * 1000000 :: 32 word) = sint n * 1000000"
proof -
  from assms have "- (2 ^ 31) \<le> sint n * 1000000" and "sint n * 1000000 < 2 ^ 31"
    by simp_all
  then show ?thesis
    unfolding millis_product by (rule signed_take_bit_int_eq_self)
qed

lemma millis_wrapped:
  "sint (n * 1000000 :: 32 word) = (sint n * 1000000 + 2 ^ 31) mod 2 ^ 32 - 2 ^ 31"
  by (simp add: millis_product signed_take_bit_eq_take_bit_shift take_bit_eq_mod)

lemma millis_overflow:
  assumes "2148 \<le> sint n"
  shows "sint (n * 1000000 :: 32 word) \<noteq> sint n * 1000000"
proof -
  have "sint (n * 1000000 :: 32 word) < 2 ^ 31"
    using sint_lt [of "n * 1000000"] by simp
  moreover from assms have "2 ^ 31 < sint n * 1000000" by simp
  ultimately show ?thesis by simp
qed

lemma sint_scast_32_64: "sint (scast (m :: 32 word) :: 64 word) = sint m"
  by (rule sint_up_scast) (simp add: is_up)

lemma nsec_sum:
  assumes "0 \<le> sint u" and "sint u < 1000000"
  shows "sint (u + scast (m :: 32 word) :: 64 word) = sint u + sint m"
proof -
  have "- (2 ^ 31) \<le> sint m" and "sint m < 2 ^ 31"
    using sint_ge [of m] sint_lt [of m] by simp_all
  with assms have "- (2 ^ 63) \<le> sint u + sint m" and "sint u + sint m < 2 ^ 63"
    by simp_all
  then have "signed_take_bit 63 (sint u + sint m) = sint u + sint m"
    by (rule signed_take_bit_int_eq_self)
  then show ?thesis by (simp add: sint_word_add sint_scast_32_64)
qed

lemma usec_to_nsec:
  assumes "0 \<le> sint u" and "sint u < 1000000"
  shows "sint (u * 1000 :: 64 word) = sint u * 1000"
proof -
  from assms have "- (2 ^ 63) \<le> sint u * 1000" and "sint u * 1000 < 2 ^ 63"
    by simp_all
  then have "signed_take_bit 63 (sint u * 1000) = sint u * 1000"
    by (rule signed_take_bit_int_eq_self)
  then show ?thesis by (simp add: sint_word_mult)
qed

lemma timed_wait_milli_deadline:
  assumes "0 < sint n" and "gettimeofday_rc w = (0, now)"
  shows "deadlines (trace (snd (timed_wait_milli w n s)))
           = deadlines (trace s)
             @ [\<lparr>ts_sec = tv_sec now, ts_nsec = tv_usec now + scast (n * 1000000)\<rparr>]"
  using assms
  by (simp add: timed_wait_milli_def wait_until_def Let_def deadlines_append)


lemma nsec_in_range_below_1000:
  assumes "0 < sint n" and "sint n \<le> 999"
    and "0 \<le> sint u" and "sint u < 1000000"
  shows "sint (u + scast (n * 1000000 :: 32 word) :: 64 word) \<le> 999999999"
proof -
  from assms have "sint (n * 1000000) = sint n * 1000000"
    by (intro millis_exact) simp_all
  with assms show ?thesis by (simp add: nsec_sum)
qed

text \<open>
  Against claim C9 as it is worded, which has \<open>tv_nsec\<close> able to exceed 999999999 for
  \<open>n \<ge> 1\<close>: for \<open>n = 1\<close> the deadline in the example world has
  \<open>tv_nsec = 1250000\<close>, and no clock reading with microseconds in \<open>0..999999\<close> gives
  \<open>timed_wait_milli(1)\<close> a deadline whose \<open>tv_nsec\<close> exceeds 999999999.
\<close>

theorem timed_wait_milli_nsec_counterexample:
  "deadlines (trace (snd (timed_wait_milli example_world 1 init_globals)))
     = [\<lparr>ts_sec = 1700000000, ts_nsec = 1250000\<rparr>]
   \<and> \<not> (\<exists>w now s. gettimeofday_rc w = (0, now)
          \<and> 0 \<le> sint (tv_usec now) \<and> sint (tv_usec now) < 1000000
          \<and> 999999999
              < sint (ts_nsec (last (deadlines (trace (snd (timed_wait_milli w 1 s)))))))"
proof -
  have one: "deadlines (trace (snd (timed_wait_milli example_world 1 init_globals)))
     = [\<lparr>ts_sec = 1700000000, ts_nsec = 1250000\<rparr>]"
    using timed_wait_milli_deadline
            [of 1 example_world "\<lparr>tv_sec = 1700000000, tv_usec = 250000\<rparr>" init_globals]
    by (simp add: example_world_def init_globals_def)
  have two: "sint (ts_nsec (last (deadlines (trace (snd (timed_wait_milli w 1 s))))))
               \<le> 999999999"
    if c: "gettimeofday_rc w = (0, now)"
      and u: "0 \<le> sint (tv_usec now)" "sint (tv_usec now) < 1000000"
    for w now s
  proof -
    have p: "0 < sint (1 :: 32 word)" and q: "sint (1 :: 32 word) \<le> 999" by simp_all
    from timed_wait_milli_deadline [OF p c, of s]
    have "last (deadlines (trace (snd (timed_wait_milli w 1 s))))
            = \<lparr>ts_sec = tv_sec now, ts_nsec = tv_usec now + scast (1 * 1000000 :: 32 word)\<rparr>"
      by simp
    with nsec_in_range_below_1000 [OF p q u] show ?thesis by simp
  qed
  have no: "\<not> (\<exists>w now s. gettimeofday_rc w = (0, now)
          \<and> 0 \<le> sint (tv_usec now) \<and> sint (tv_usec now) < 1000000
          \<and> 999999999
              < sint (ts_nsec (last (deadlines (trace (snd (timed_wait_milli w 1 s)))))))"
  proof
    assume "\<exists>w now s. gettimeofday_rc w = (0, now)
          \<and> 0 \<le> sint (tv_usec now) \<and> sint (tv_usec now) < 1000000
          \<and> 999999999
              < sint (ts_nsec (last (deadlines (trace (snd (timed_wait_milli w 1 s))))))"
    then obtain w now s where c: "gettimeofday_rc w = (0, now)"
      and u: "0 \<le> sint (tv_usec now)" "sint (tv_usec now) < 1000000"
      and big: "999999999
              < sint (ts_nsec (last (deadlines (trace (snd (timed_wait_milli w 1 s))))))"
      by blast
    from two [OF c u, of s] big show False by simp
  qed
  from one no show ?thesis by (rule conjI)
qed

text \<open>
  Claim C9, amended. For every \<open>n > 0\<close> (and a clock that could be read),
  \<open>timed_wait_milli(n)\<close> waits until the deadline \<open>tv_sec = now.tv_sec\<close>,
  \<open>tv_nsec = now.tv_usec + n * 1000000\<close>: the product is a 32-bit signed product, equal
  to the exact one up to \<open>n = 2147\<close> and wrapped modulo \<open>2^32\<close> from \<open>n = 2148\<close>
  on; the microseconds enter the sum as they are, not as nanoseconds; the seconds get no
  carry. So, with a clock reading whose microseconds are in \<open>0..999999\<close>, \<open>tv_nsec\<close>
  exceeds 999999999 for every \<open>n\<close> from 1000 to 2147, and does not for \<open>n\<close> from 1
  to 999.
\<close>

theorem timed_wait_milli_deadline_formula:
  assumes "0 < sint n" and "gettimeofday_rc w = (0, now)"
  shows "deadlines (trace (snd (timed_wait_milli w n s)))
           = deadlines (trace s)
             @ [\<lparr>ts_sec = tv_sec now, ts_nsec = tv_usec now + scast (n * 1000000)\<rparr>]
     \<and> sint (n * 1000000) = (sint n * 1000000 + 2 ^ 31) mod 2 ^ 32 - 2 ^ 31
     \<and> (sint n \<le> 2147 \<longrightarrow> sint (n * 1000000) = sint n * 1000000)
     \<and> (2148 \<le> sint n \<longrightarrow> sint (n * 1000000) \<noteq> sint n * 1000000)
     \<and> (0 \<le> sint (tv_usec now) \<and> sint (tv_usec now) < 1000000 \<longrightarrow>
          sint (tv_usec now + scast (n * 1000000))
            = sint (tv_usec now) + sint (n * 1000000))
     \<and> (0 \<le> sint (tv_usec now) \<and> sint (tv_usec now) < 1000000
          \<and> 1000 \<le> sint n \<and> sint n \<le> 2147 \<longrightarrow>
          999999999 < sint (tv_usec now + scast (n * 1000000)))
     \<and> (0 \<le> sint (tv_usec now) \<and> sint (tv_usec now) < 1000000 \<and> sint n \<le> 999 \<longrightarrow>
          sint (tv_usec now + scast (n * 1000000)) \<le> 999999999)"
proof -
  have big: "999999999 < sint (tv_usec now + scast (n * 1000000))"
    if u: "0 \<le> sint (tv_usec now)" "sint (tv_usec now) < 1000000"
      and n: "1000 \<le> sint n" "sint n \<le> 2147"
  proof -
    from n have "sint (n * 1000000) = sint n * 1000000"
      by (intro millis_exact) simp_all
    with u n show ?thesis by (simp add: nsec_sum)
  qed
  from assms show ?thesis
    by (intro conjI impI timed_wait_milli_deadline millis_wrapped millis_exact
          millis_overflow nsec_sum big nsec_in_range_below_1000) simp_all
qed

theorem timed_wait_milli_deadline_formula_witness:
  "0 < sint (1000 :: 32 word)
   \<and> gettimeofday_rc example_world = (0, \<lparr>tv_sec = 1700000000, tv_usec = 250000\<rparr>)
   \<and> deadlines (trace (snd (timed_wait_milli example_world 1000 init_globals)))
       = [\<lparr>ts_sec = 1700000000, ts_nsec = 1000250000\<rparr>]
   \<and> 999999999 < sint (1000250000 :: 64 word)
   \<and> 2148 \<le> sint (2148 :: 32 word)
   \<and> sint (2148 * 1000000 :: 32 word) = - 2146967296
   \<and> sint (2148 * 1000000 :: 32 word) \<noteq> sint (2148 :: 32 word) * 1000000
   \<and> sint (999 :: 32 word) \<le> 999
   \<and> deadlines (trace (snd (timed_wait_milli example_world 999 init_globals)))
       = [\<lparr>ts_sec = 1700000000, ts_nsec = 999250000\<rparr>]
   \<and> sint (999250000 :: 64 word) \<le> 999999999"
proof -
  have p: "0 < sint (1000 :: 32 word)" and q: "0 < sint (2148 :: 32 word)"
    and q': "2148 \<le> sint (2148 :: 32 word)"
    and r: "0 < sint (999 :: 32 word)" and r': "sint (999 :: 32 word) \<le> 999"
    by simp_all
  have c: "gettimeofday_rc example_world = (0, \<lparr>tv_sec = 1700000000, tv_usec = 250000\<rparr>)"
    by (simp add: example_world_def)
  from timed_wait_milli_deadline_formula [OF p c, of init_globals] p c
  have one: "deadlines (trace (snd (timed_wait_milli example_world 1000 init_globals)))
       = [\<lparr>ts_sec = 1700000000, ts_nsec = 1000250000\<rparr>]"
    "999999999 < sint (1000250000 :: 64 word)"
    by (simp_all add: init_globals_def)
  from timed_wait_milli_deadline_formula [OF q c, of init_globals] q'
  have two: "sint (2148 * 1000000 :: 32 word) \<noteq> sint (2148 :: 32 word) * 1000000"
    by blast
  have three: "sint (2148 * 1000000 :: 32 word) = - 2146967296" by simp
  from timed_wait_milli_deadline_formula [OF r c, of init_globals] r'
  have four: "deadlines (trace (snd (timed_wait_milli example_world 999 init_globals)))
       = [\<lparr>ts_sec = 1700000000, ts_nsec = 999250000\<rparr>]"
    "sint (999250000 :: 64 word) \<le> 999999999"
    by (simp_all add: init_globals_def)
  from p c one two three four q' r' show ?thesis by blast
qed

section \<open>What the timed waits return\<close>

text \<open>
  Against claim C3 as it is worded: in the normal case, where the clock is read and the
  wait runs to its deadline with no wake-up, both waits return the status of
  \<open>pthread_cond_timedwait\<close>, which is \<open>ETIMEDOUT\<close> (110), not success.
\<close>

theorem timed_wait_timeout_counterexample:
  "fst (gettimeofday_rc example_world) = 0
   \<and> wake example_world = Timed_out
   \<and> fst (timed_wait example_world 1 init_globals) = 110
   \<and> fst (timed_wait_milli example_world 1 init_globals) = 110"
  by (simp add: timed_wait_def timed_wait_milli_def wait_until_def
        pthread_cond_timedwait_def ETIMEDOUT_def example_world_def Let_def)

lemma timed_wait_returns:
  "fst (timed_wait w n s)
     = (if fst (gettimeofday_rc w) \<noteq> 0 then fst (gettimeofday_rc w)
        else pthread_cond_timedwait w
               \<lparr>ts_sec = tv_sec (snd (gettimeofday_rc w)) + scast n,
                ts_nsec = tv_usec (snd (gettimeofday_rc w)) * 1000\<rparr>)"
  by (simp add: timed_wait_def wait_until_def Let_def split: prod.splits)

lemma timed_wait_milli_returns:
  "fst (timed_wait_milli w n s)
     = (if sint n \<le> 0 then 0
        else if fst (gettimeofday_rc w) \<noteq> 0 then fst (gettimeofday_rc w)
        else pthread_cond_timedwait w
               \<lparr>ts_sec = tv_sec (snd (gettimeofday_rc w)),
                ts_nsec = tv_usec (snd (gettimeofday_rc w)) + scast (n * 1000000)\<rparr>)"
  by (simp add: timed_wait_milli_def wait_until_def Let_def split: prod.splits)

lemma pthread_cond_timedwait_0:
  "pthread_cond_timedwait w ts = 0 \<Longrightarrow> wake w = Woken"
  by (auto simp: pthread_cond_timedwait_def EINVAL_def ETIMEDOUT_def
           split: if_splits wake.splits)

lemma pthread_cond_timedwait_timeout:
  "wake w = Timed_out \<Longrightarrow> 0 \<le> sint (ts_nsec ts) \<Longrightarrow> sint (ts_nsec ts) < 1000000000 \<Longrightarrow>
     pthread_cond_timedwait w ts = ETIMEDOUT"
  by (simp add: pthread_cond_timedwait_def)

text \<open>
  Claim C3, amended. A timed wait returns the non-zero status of \<open>gettimeofday\<close> when
  the clock cannot be read; the millisecond wait returns 0 for \<open>n \<le> 0\<close>; in every
  other case the call returns the status of \<open>pthread_cond_timedwait\<close>. In the normal
  case, where the full duration elapses with no wake-up, that status is the non-zero
  \<open>ETIMEDOUT\<close> (for the millisecond wait, for \<open>n\<close> up to 999); a wait returns 0
  only when a wake-up ended it (or, for the millisecond wait, when \<open>n \<le> 0\<close>).
\<close>

theorem timed_wait_status:
  "fst (timed_wait w n s)
     = (if fst (gettimeofday_rc w) \<noteq> 0 then fst (gettimeofday_rc w)
        else pthread_cond_timedwait w
               \<lparr>ts_sec = tv_sec (snd (gettimeofday_rc w)) + scast n,
                ts_nsec = tv_usec (snd (gettimeofday_rc w)) * 1000\<rparr>)
   \<and> fst (timed_wait_milli w n s)
     = (if sint n \<le> 0 then 0
        else if fst (gettimeofday_rc w) \<noteq> 0 then fst (gettimeofday_rc w)
        else pthread_cond_timedwait w
               \<lparr>ts_sec = tv_sec (snd (gettimeofday_rc w)),
                ts_nsec = tv_usec (snd (gettimeofday_rc w)) + scast (n * 1000000)\<rparr>)
   \<and> (fst (gettimeofday_rc w) = 0 \<and> wake w = Timed_out
        \<and> 0 \<le> sint (tv_usec (snd (gettimeofday_rc w)))
        \<and> sint (tv_usec (snd (gettimeofday_rc w))) < 1000000 \<longrightarrow>
        fst (timed_wait w n s) = ETIMEDOUT
        \<and> (0 < sint n \<and> sint n \<le> 999 \<longrightarrow> fst (timed_wait_milli w n s) = ETIMEDOUT))
   \<and> ETIMEDOUT \<noteq> 0
   \<and> (fst (timed_wait w n s) = 0 \<longrightarrow> fst (gettimeofday_rc w) = 0 \<and> wake w = Woken)
   \<and> (fst (timed_wait_milli w n s) = 0 \<longrightarrow>
        sint n \<le> 0 \<or> fst (gettimeofday_rc w) = 0 \<and> wake w = Woken)"
proof -
  let ?u = "tv_usec (snd (gettimeofday_rc w))"
  have secs: "fst (timed_wait w n s) = ETIMEDOUT"
    if "fst (gettimeofday_rc w) = 0" "wake w = Timed_out" "0 \<le> sint ?u" "sint ?u < 1000000"
    using that by (simp add: timed_wait_returns pthread_cond_timedwait_timeout usec_to_nsec)
  have millis: "fst (timed_wait_milli w n s) = ETIMEDOUT"
    if "fst (gettimeofday_rc w) = 0" "wake w = Timed_out" "0 \<le> sint ?u" "sint ?u < 1000000"
      "0 < sint n" "sint n \<le> 999"
  proof -
    from that have "sint (n * 1000000) = sint n * 1000000"
      by (intro millis_exact) simp_all
    with that have "sint (?u + scast (n * 1000000)) = sint ?u + sint n * 1000000"
      by (simp add: nsec_sum)
    with that show ?thesis
      by (simp add: timed_wait_milli_returns pthread_cond_timedwait_timeout)
  qed
  have zero: "fst (timed_wait w n s) = 0 \<longrightarrow> fst (gettimeofday_rc w) = 0 \<and> wake w = Woken"
    by (auto simp: timed_wait_returns dest: pthread_cond_timedwait_0 split: if_splits)
  have zero_milli: "fst (timed_wait_milli w n s) = 0 \<longrightarrow>
        sint n \<le> 0 \<or> fst (gettimeofday_rc w) = 0 \<and> wake w = Woken"
    by (auto simp: timed_wait_milli_returns dest: pthread_cond_timedwait_0 split: if_splits)
  have nz: "ETIMEDOUT \<noteq> 0" by (simp add: ETIMEDOUT_def)
  from secs millis zero zero_milli nz show ?thesis
    using timed_wait_returns [of w n s] timed_wait_milli_returns [of w n s] by blast
qed

theorem timed_wait_status_witness:
  "fst (timed_wait example_world 1 init_globals) = ETIMEDOUT
   \<and> fst (timed_wait_milli example_world 1 init_globals) = ETIMEDOUT
   \<and> ETIMEDOUT \<noteq> 0
   \<and> fst (timed_wait (example_world\<lparr>wake := Woken\<rparr>) 1 init_globals) = 0
   \<and> fst (timed_wait_milli (example_world\<lparr>wake := Woken\<rparr>) 1 init_globals) = 0
   \<and> fst (timed_wait failing_world 1 init_globals) = - 1
   \<and> fst (timed_wait_milli failing_world 1 init_globals) = - 1"
proof -
  have "fst (gettimeofday_rc example_world) = 0" "wake example_world = Timed_out"
    "0 \<le> sint (tv_usec (snd (gettimeofday_rc example_world)))"
    "sint (tv_usec (snd (gettimeofday_rc example_world))) < 1000000"
    "0 < sint (1 :: 32 word)" "sint (1 :: 32 word) \<le> 999"
    by (simp_all add: example_world_def)
  with timed_wait_status [of example_world 1 init_globals]
  have normal: "fst (timed_wait example_world 1 init_globals) = ETIMEDOUT"
    "fst (timed_wait_milli example_world 1 init_globals) = ETIMEDOUT" "ETIMEDOUT \<noteq> 0"
    by blast+
  from timed_wait_status [of "example_world\<lparr>wake := Woken\<rparr>" 1 init_globals]
  have woken: "fst (timed_wait (example_world\<lparr>wake := Woken\<rparr>) 1 init_globals) = 0"
    "fst (timed_wait_milli (example_world\<lparr>wake := Woken\<rparr>) 1 init_globals) = 0"
    by (simp_all add: example_world_def pthread_cond_timedwait_def)
  from timed_wait_status [of failing_world 1 init_globals]
  have failed: "fst (timed_wait failing_world 1 init_globals) = - 1"
    "fst (timed_wait_milli failing_world 1 init_globals) = - 1"
    by (simp_all add: failing_world_def)
  from normal woken failed show ?thesis by simp
qed

section \<open>Writing a status slot\<close>

lemma set_status_element_in_range:
  assumes "status_array s = Some b" and "0 \<le> index" and "index < sizeof_status_array s"
    and "sizeof_status_array s \<le> int (length (cells b))"
  shows "\<exists>s'. set_status_element w index v s = Return True s'
           \<and> status_array s' = Some (b\<lparr>cells := (cells b)[nat index := v]\<rparr>)
           \<and> sizeof_status_array s' = sizeof_status_array s"
  using assms by (simp add: set_status_element_def store_def Let_def wrappers)

lemma set_status_element_too_large:
  assumes "sizeof_status_array s \<le> index"
  shows "\<exists>s'. set_status_element w index v s = Return False s'
           \<and> status_array s' = status_array s
           \<and> sizeof_status_array s' = sizeof_status_array s"
  using assms by (simp add: set_status_element_def Let_def wrappers)

lemma set_status_element_negative:
  assumes "index < 0" and "0 \<le> sizeof_status_array s"
  shows "set_status_element w index v s
           = Fault (case status_array s of None \<Rightarrow> Null_pointer | Some b \<Rightarrow> Out_of_bounds index)"
  using assms
  by (simp add: set_status_element_def store_def Let_def wrappers split: option.splits)

text \<open>
  Claim C1 has \<open>set_status_element(index, v)\<close> return true exactly for
  \<open>0 \<le> index < length\<close> and leave the array alone otherwise. The code tests only
  \<open>index < sizeof_status_array\<close>: with a status array of one slot, index \<open>-1\<close>
  passes the test and the code writes \<open>status_array[-1]\<close>, outside the array, instead
  of returning false.
\<close>

theorem set_status_element_negative_index:
  "create_status_array example_world init_globals = Return () one_slot
   \<and> set_status_element example_world (- 1) 5 one_slot = Fault (Out_of_bounds (- 1))"
  by (simp add: create_status_array_def set_status_element_def store_def malloc_cells_def
        FREE_def one_slot_def init_globals_def example_world_def Let_def wrappers
        CHECK_STATUS_def)

section \<open>Initialising the status array\<close>

lemma init_status_array_same_size:
  assumes "status_array s = Some b" and "pool_size s = sizeof_status_array s"
    and "sizeof_status_array s = int (length (cells b))"
  shows "\<exists>s'. init_status_array w s = Return () s'
           \<and> status_array s' = Some (b\<lparr>cells := replicate (length (cells b)) 0\<rparr>)
           \<and> sizeof_status_array s' = sizeof_status_array s"
  using assms
  by (cases "cells b = []")
     (auto simp: init_status_array_def memset_zero_def Let_def wrappers)

lemma one_slot_zeroed:
  "init_status_array example_world (one_slot\<lparr>pool_size := 1\<rparr>)
     = Return () (one_slot\<lparr>status_array := Some \<lparr>addr = 8192, cells = [0]\<rparr>\<rparr>)"
  by (simp add: init_status_array_def memset_zero_def one_slot_def init_globals_def
        example_world_def wrappers CHECK_STATUS_def Let_def)

lemma init_status_array_new_size:
  assumes "pool_size s \<noteq> sizeof_status_array s" and "0 \<le> pool_size s"
    and "malloc_status w = Fresh a junk"
  shows "\<exists>s'. init_status_array w s = Return () s'
           \<and> status_array s' = Some \<lparr>addr = a, cells = map junk [0..<nat (pool_size s)]\<rparr>
           \<and> sizeof_status_array s' = pool_size s"
  using assms
  by (simp add: init_status_array_def create_status_array_def malloc_cells_def FREE_def
        Let_def wrappers)

text \<open>
  Claim C2 has \<open>init_status_array\<close> produce an array of zeros also when the pool size
  differs from the declared length. On that path the code only calls
  \<open>create_status_array\<close>, whose malloc'ed block is never cleared: from the initial
  globals (pool size 1, declared length 0) the new array has one slot, and it holds the
  7 that malloc left there.
\<close>

theorem init_status_array_keeps_junk:
  "pool_size init_globals \<noteq> sizeof_status_array init_globals
   \<and> init_status_array example_world init_globals = Return () one_slot
   \<and> status_array one_slot = Some \<lparr>addr = 8192, cells = [7]\<rparr>"
  by (simp add: init_status_array_def create_status_array_def malloc_cells_def
        FREE_def one_slot_def init_globals_def example_world_def Let_def wrappers
        CHECK_STATUS_def)

section \<open>The join pass\<close>

lemma joined_append: "joined (xs @ ys) = joined xs @ joined ys"
  by (induction xs rule: joined.induct) simp_all

lemma skipped_append: "skipped (xs @ ys) = skipped xs @ skipped ys"
  by (induction xs rule: skipped.induct) (simp_all split: list.splits arg.splits)

lemma started_append: "started (xs @ ys) = started xs @ started ys"
  by (induction xs rule: started.induct) simp_all

lemma projections_CHECK_STATUS [simp]:
  "joined (trace (CHECK_STATUS st a m s)) = joined (trace s)"
  "skipped (trace (CHECK_STATUS st a m s)) = skipped (trace s)"
  "started (trace (CHECK_STATUS st a m s)) = started (trace s)"
  by (simp_all add: CHECK_STATUS_def joined_append skipped_append started_append)

lemma join_step_trace:
  assumes "thread_pool s = Some tbl" and "i < length (cells tbl)"
    and "case t of None \<Rightarrow> c = 0 | Some l \<Rightarrow> c \<noteq> 0 \<and> i < length (cells l)"
  shows "\<exists>s1. join_step w t c (int i) s = Inr s1
           \<and> joined (trace s1)
               = joined (trace s) @ (if wanted t i then [(i, cells tbl ! i)] else [])
           \<and> skipped (trace s1)
               = skipped (trace s) @ (if wanted t i then [] else [int i + 1])"
  using assms
  by (auto simp: join_step_def pthread_join_def load_def wanted_def Let_def
        joined_append skipped_append split: option.splits)

lemma join_loop_trace:
  assumes "thread_pool s = Some tbl" and "pool_size s = int n" and "n \<le> length (cells tbl)"
    and "i \<le> n"
    and "case t of None \<Rightarrow> c = 0 | Some l \<Rightarrow> c \<noteq> 0 \<and> n \<le> length (cells l)"
  shows "\<exists>s'. join_loop w t c (int i) s = Return () s'
           \<and> joined (trace s')
               = joined (trace s) @ map (\<lambda>k. (k, cells tbl ! k)) (filter (wanted t) [i..<n])
           \<and> skipped (trace s')
               = skipped (trace s)
                 @ map (\<lambda>k. int k + 1) (filter (\<lambda>k. \<not> wanted t k) [i..<n])"
  using assms
proof (induction "n - i" arbitrary: i s)
  case 0
  then show ?case by (simp add: join_loop.simps)
next
  case (Suc d)
  then have lt: "i < n" by simp
  with Suc.prems have il: "i < length (cells tbl)" by simp
  from Suc.prems lt
  have tc: "case t of None \<Rightarrow> c = 0 | Some l \<Rightarrow> c \<noteq> 0 \<and> i < length (cells l)"
    by (auto split: option.splits)
  from join_step_trace [OF Suc.prems(1) il tc, of w]
  obtain s1 where st: "join_step w t c (int i) s = Inr s1"
    and j1: "joined (trace s1)
               = joined (trace s) @ (if wanted t i then [(i, cells tbl ! i)] else [])"
    and k1: "skipped (trace s1)
               = skipped (trace s) @ (if wanted t i then [] else [int i + 1])"
    by blast
  from join_step_frame [OF st] Suc.prems
  have tp: "thread_pool s1 = Some tbl" and ps: "pool_size s1 = int n" by simp_all
  from Suc.hyps(2) lt have d: "d = n - Suc i" and le: "Suc i \<le> n" by simp_all
  from Suc.hyps(1) [OF d tp ps Suc.prems(3) le Suc.prems(5)]
  obtain s' where r: "join_loop w t c (int (Suc i)) s1 = Return () s'"
    and j: "joined (trace s')
              = joined (trace s1)
                @ map (\<lambda>k. (k, cells tbl ! k)) (filter (wanted t) [Suc i..<n])"
    and k: "skipped (trace s')
              = skipped (trace s1)
                @ map (\<lambda>k. int k + 1) (filter (\<lambda>k. \<not> wanted t k) [Suc i..<n])"
    by blast
  have step: "join_loop w t c (int i) s = join_loop w t c (int (Suc i)) s1"
    using lt st Suc.prems(2) by (simp add: join_loop.simps [of w t c "int i" s] add.commute)
  from lt have upt: "[i..<n] = i # [Suc i..<n]" by (simp add: upt_conv_Cons)
  show ?case
    unfolding step upt using r j k j1 k1 by simp
qed

text \<open>The pool of three workers is what \<open>create_threads\<close> leaves in the example world.\<close>

lemma three_workers_created:
  "create_threads example_world 3 init_globals
     = Return (Some \<lparr>addr = 4096, cells = [100, 101, 102]\<rparr>) three_workers"
  by (simp add: create_threads_def create_loop.simps start_thread_def store_def
        malloc_cells_def example_world_def init_globals_def three_workers_def wrappers
        CHECK_STATUS_def emit_def Let_def upt_rec)

text \<open>
  Claim C4. A call of join on a pool of \<open>n\<close> workers (a handle table of at least
  \<open>n\<close> slots; a liveness array, when given, of at least \<open>n\<close> entries) visits the
  slots in the order \<open>0..n-1\<close>: the joins it makes are, in this order, those of the
  slots \<open>i\<close> for which the liveness argument is absent or has a true \<open>i\<close>-th entry,
  each with the handle of slot \<open>i\<close>; the other slots are not joined, and for each of
  them, in the same order, a line reports thread \<open>i + 1\<close> as hung and not joined.
\<close>

theorem join_threads_visits:
  assumes "thread_pool s = Some tbl" and "pool_size s = int n" and "n \<le> length (cells tbl)"
    and "case t_status of None \<Rightarrow> True | Some l \<Rightarrow> n \<le> length (cells l)"
  shows "\<exists>s'. join_threads w t_status s = Return () s'
           \<and> joined (trace s')
               = joined (trace s)
                 @ map (\<lambda>i. (i, cells tbl ! i)) (filter (wanted t_status) [0..<n])
           \<and> skipped (trace s')
               = skipped (trace s)
                 @ map (\<lambda>i. int i + 1) (filter (\<lambda>i. \<not> wanted t_status i) [0..<n])"
proof -
  let ?c = "if t_status = None then 0 else (1 :: int)"
  let ?s1 = "if t_status = None
             then emit (Printf ''%s Joining on ALL threads reguardless of state \<newline>''
                          [Str ''join_threads: '']) s
             else s"
  have a: "thread_pool ?s1 = Some tbl" and b: "pool_size ?s1 = int n"
    using assms by simp_all
  have c: "case t_status of None \<Rightarrow> ?c = 0 | Some l \<Rightarrow> ?c \<noteq> 0 \<and> n \<le> length (cells l)"
    using assms(4) by (simp split: option.splits)
  from join_loop_trace [OF a b assms(3) le0 c, of w]
  obtain s2 where r: "join_loop w t_status ?c 0 ?s1 = Return () s2"
    and j: "joined (trace s2)
              = joined (trace ?s1)
                @ map (\<lambda>k. (k, cells tbl ! k)) (filter (wanted t_status) [0..<n])"
    and k: "skipped (trace s2)
              = skipped (trace ?s1)
                @ map (\<lambda>k. int k + 1) (filter (\<lambda>k. \<not> wanted t_status k) [0..<n])"
    by auto
  have pre: "joined (trace ?s1) = joined (trace s)" "skipped (trace ?s1) = skipped (trace s)"
    by (simp_all add: joined_append skipped_append)
  from r j k pre show ?thesis
    by (simp add: join_threads_def Let_def destroy_all_mutexes_def joined_append
          skipped_append)
qed


theorem join_threads_visits_witness:
  "(\<exists>s'. join_threads example_world (Some \<lparr>addr = 64, cells = [1, 0, 1]\<rparr>) three_workers
            = Return () s'
        \<and> joined (trace s') = [(0, 100), (2, 102)]
        \<and> skipped (trace s') = [2])
   \<and> (\<exists>s'. join_threads example_world None three_workers = Return () s'
        \<and> joined (trace s') = [(0, 100), (1, 101), (2, 102)]
        \<and> skipped (trace s') = [])"
proof -
  let ?tbl = "\<lparr>addr = 4096, cells = [100, 101, 102 :: pthread_t]\<rparr>"
  let ?t = "Some \<lparr>addr = 64, cells = [1, 0, 1 :: int]\<rparr>"
  have a: "thread_pool three_workers = Some ?tbl" and b: "pool_size three_workers = int 3"
    and c: "3 \<le> length (cells ?tbl)"
    and d: "case ?t of None \<Rightarrow> True | Some l \<Rightarrow> 3 \<le> length (cells l)"
    and e: "case None :: int block option of None \<Rightarrow> True | Some l \<Rightarrow> 3 \<le> length (cells l)"
    by (simp_all add: three_workers_def)
  have f: "filter (wanted ?t) [0..<3] = [0, 2]"
    "filter (\<lambda>i. \<not> wanted ?t i) [0..<3] = [1]"
    "filter (\<lambda>i. \<not> wanted None i) [0..<3] = []"
    by (simp_all add: wanted_def upt_rec)
  have g: "filter (wanted None) [0..<3] = [0, 1, 2]"
    by (simp add: wanted_def upt_rec)
  from join_threads_visits [OF a b c d, of example_world] f
  have one: "\<exists>s'. join_threads example_world ?t three_workers = Return () s'
        \<and> joined (trace s') = [(0, 100), (2, 102)] \<and> skipped (trace s') = [2]"
    by (simp add: three_workers_def)
  from join_threads_visits [OF a b c e, of example_world] f g
  have two: "\<exists>s'. join_threads example_world None three_workers = Return () s'
        \<and> joined (trace s') = [(0, 100), (1, 101), (2, 102)] \<and> skipped (trace s') = []"
    by (simp add: three_workers_def)
  from one two show ?thesis by blast
qed

section \<open>Creating the pool\<close>

lemma start_thread_ok:
  assumes "thread_pool s = Some b" and "i < length (cells b)" and "fst (create_rc w i) = 0"
  shows "\<exists>s1. start_thread w (int i) s = Inr s1
           \<and> thread_pool s1 = Some (b\<lparr>cells := (cells b)[i := snd (create_rc w i)]\<rparr>)
           \<and> pool_size s1 = pool_size s
           \<and> thread_stop s1 = thread_stop s
           \<and> started (trace s1) = started (trace s) @ [i]"
  using assms
  by (cases "create_rc w i")
     (simp add: start_thread_def store_def Let_def started_append)

lemma create_loop_fills:
  assumes "thread_pool s = Some b" and "pool_size s = int n" and "length (cells b) = n"
    and "i \<le> n" and "\<forall>k<n. fst (create_rc w k) = 0"
  shows "\<exists>s'. create_loop w (int i) s = Return () s'
           \<and> thread_pool s'
               = Some (b\<lparr>cells := take i (cells b) @ map (\<lambda>k. snd (create_rc w k)) [i..<n]\<rparr>)
           \<and> pool_size s' = pool_size s
           \<and> thread_stop s' = thread_stop s
           \<and> started (trace s') = started (trace s) @ [i..<n]"
  using assms
proof (induction "n - i" arbitrary: i s b)
  case 0
  then show ?case by (simp add: create_loop.simps)
next
  case (Suc d)
  then have lt: "i < n" by simp
  with Suc.prems have il: "i < length (cells b)" and ok: "fst (create_rc w i) = 0"
    by simp_all
  let ?b1 = "b\<lparr>cells := (cells b)[i := snd (create_rc w i)]\<rparr>"
  from start_thread_ok [OF Suc.prems(1) il ok]
  obtain s1 where st: "start_thread w (int i) s = Inr s1"
    and tp: "thread_pool s1 = Some ?b1"
    and ps: "pool_size s1 = pool_size s" and ts: "thread_stop s1 = thread_stop s"
    and tr: "started (trace s1) = started (trace s) @ [i]"
    by blast
  from Suc.hyps(2) lt have d: "d = n - Suc i" and le: "Suc i \<le> n" by simp_all
  have ps1: "pool_size s1 = int n" and len: "length (cells ?b1) = n"
    using ps Suc.prems by simp_all
  from Suc.hyps(1) [OF d tp ps1 len le Suc.prems(5)]
  obtain s' where r: "create_loop w (int (Suc i)) s1 = Return () s'"
    and tp': "thread_pool s'
               = Some (?b1\<lparr>cells := take (Suc i) (cells ?b1)
                                       @ map (\<lambda>k. snd (create_rc w k)) [Suc i..<n]\<rparr>)"
    and ps': "pool_size s' = pool_size s1" and ts': "thread_stop s' = thread_stop s1"
    and tr': "started (trace s') = started (trace s1) @ [Suc i..<n]"
    by blast
  have step: "create_loop w (int i) s = create_loop w (int (Suc i)) s1"
    using lt st Suc.prems(2) by (simp add: create_loop.simps [of w "int i" s] add.commute)
  from lt have upt: "[i..<n] = i # [Suc i..<n]" by (simp add: upt_conv_Cons)
  from il have tk: "take (Suc i) (cells ?b1) = take i (cells b) @ [snd (create_rc w i)]"
    by (simp add: take_Suc_conv_app_nth)
  show ?case
    unfolding step upt using r tp' ps' ts' tr' ps ts tr tk by simp
qed

text \<open>
  Claim C5. For every \<open>n > 0\<close>, after a successful \<open>create_threads\<close> of \<open>n\<close>
  workers (malloc returned a block and every \<open>pthread_create\<close> succeeded, handing
  out thread ids that differ from each other, as POSIX has it for threads not yet
  joined), \<open>get_pool_size\<close> returns \<open>n\<close> and the handle table holds exactly \<open>n\<close>
  handles, all distinct: slot \<open>i\<close> holds the id of the \<open>i\<close>-th thread started.
\<close>

theorem create_threads_pool:
  assumes "0 < n" and "malloc_threads w = Fresh a junk"
    and "\<forall>i<nat n. fst (create_rc w i) = 0"
    and "inj_on (\<lambda>i. snd (create_rc w i)) {..<nat n}"
  shows "\<exists>tbl s'. create_threads w n s = Return (Some tbl) s'
           \<and> thread_pool s' = Some tbl
           \<and> addr tbl = a
           \<and> fst (get_pool_size w' s') = n
           \<and> int (length (cells tbl)) = n
           \<and> cells tbl = map (\<lambda>i. snd (create_rc w i)) [0..<nat n]
           \<and> distinct (cells tbl)
           \<and> started (trace s') = started (trace s) @ [0..<nat n]"
proof -
  let ?b = "\<lparr>addr = a, cells = map junk [0..<nat n]\<rparr>"
  let ?s2 = "s\<lparr>pool_size := n, thread_pool := Some ?b\<rparr>"
  let ?s4 = "(create_local_mutexes w ?s2)\<lparr>thread_stop := 0\<rparr>"
  from assms(1) have n: "n = int (nat n)" by simp
  have tp: "thread_pool ?s4 = Some ?b" and ps: "pool_size ?s4 = int (nat n)"
    and len: "length (cells ?b) = nat n"
    using assms(1) by (simp_all add: create_local_mutexes_def)
  have tr: "started (trace ?s4) = started (trace s)"
    by (simp add: create_local_mutexes_def)
  from create_loop_fills [OF tp ps len le0 assms(3)]
  obtain s' where r: "create_loop w 0 ?s4 = Return () s'"
    and tp': "thread_pool s'
               = Some (?b\<lparr>cells := map (\<lambda>k. snd (create_rc w k)) [0..<nat n]\<rparr>)"
    and ps': "pool_size s' = pool_size ?s4"
    and tr': "started (trace s') = started (trace ?s4) @ [0..<nat n]"
    by auto
  have run: "create_threads w n s = Return (thread_pool s') s'"
    using assms(1,2) r by (simp add: create_threads_def malloc_cells_def Let_def)
  have dist: "distinct (map (\<lambda>k. snd (create_rc w k)) [0..<nat n])"
    using assms(4) by (simp add: distinct_map atLeast0LessThan)
  from run tp' ps' ps tr tr' dist assms(1) show ?thesis
    by (simp add: get_pool_size_value)
qed

theorem create_threads_pool_witness:
  "\<exists>tbl s'. create_threads example_world 3 init_globals = Return (Some tbl) s'
        \<and> addr tbl = 4096
        \<and> cells tbl = [100, 101, 102]
        \<and> fst (get_pool_size example_world s') = 3
        \<and> distinct (cells tbl)"
proof -
  have p: "0 < (3 :: int)" by simp
  have m: "malloc_threads example_world = Fresh 4096 (\<lambda>i. 0)"
    by (simp add: example_world_def)
  have ok: "\<forall>i<nat 3. fst (create_rc example_world i) = 0"
    by (simp add: example_world_def)
  have inj: "inj_on (\<lambda>i. snd (create_rc example_world i)) {..<nat 3}"
    by (auto simp: example_world_def inj_on_def less_Suc_eq eval_nat_numeral)
  have cells: "map (\<lambda>i. snd (create_rc example_world i)) [0..<nat 3] = [100, 101, 102]"
    by (simp add: example_world_def upt_rec)
  from create_threads_pool [OF p m ok inj, of init_globals example_world] cells
  show ?thesis by auto
qed


section \<open>Which failures end the process\<close>

















lemma CHECK_STATUS_grows: "set (trace s) \<subseteq> set (trace (CHECK_STATUS st a m s))"
  by (auto simp: CHECK_STATUS_trace)







lemma find_loop_found:
  assumes "thread_pool s = Some tbl" and "n \<le> length (cells tbl)"
    and "i \<le> k" and "k < n" and "cells tbl ! k = thread"
    and "\<forall>j. i \<le> j \<and> j < k \<longrightarrow> cells tbl ! j \<noteq> thread"
  shows "find_loop thread (int i) (int n) s = Inr (int k)"
  using assms
proof (induction "k - i" arbitrary: i)
  case 0
  then have "i = k" by simp
  with "0.prems" show ?case
    by (simp add: find_loop.simps [of thread "int k"] load_def)
next
  case (Suc d)
  then have lt: "i < k" by simp
  with Suc.prems have ld: "load (thread_pool s) (int i) = Inr (cells tbl ! i)"
    and ne: "cells tbl ! i \<noteq> thread" and ln: "i < n"
    by (simp_all add: load_def)
  from Suc.hyps(2) lt have d: "d = k - Suc i" and le: "Suc i \<le> k" by simp_all
  from Suc.prems(6) have rest: "\<forall>j. Suc i \<le> j \<and> j < k \<longrightarrow> cells tbl ! j \<noteq> thread"
    by simp
  from Suc.hyps(1) [OF d Suc.prems(1,2) le Suc.prems(4,5) rest]
  have "find_loop thread (int (Suc i)) (int n) s = Inr (int k)" .
  with ln ld ne show ?case
    by (simp add: find_loop.simps [of thread "int i"] add.commute)
qed


lemma find_my_index_unfold:
  "find_my_index w thread s =
     (case find_loop thread 0 (pool_size s) (lock_thread_pool w (snd (get_pool_size w s))) of
        Inl f \<Rightarrow> Fault f
      | Inr i \<Rightarrow>
          if pool_size s \<le> i
          then Return (- 1)
                 (LOG_ERROR ''find_my_index: '' ''Unable to match any thread in thread_pool''
                    (unlock_thread_pool w (lock_thread_pool w (snd (get_pool_size w s)))))
          else Return i (unlock_thread_pool w (lock_thread_pool w (snd (get_pool_size w s)))))"
  by (simp add: find_my_index_def get_pool_size_def Let_def wrappers split: sum.splits)

lemma locked_thread_pool [simp]:
  "thread_pool (lock_thread_pool w (snd (get_pool_size w s))) = thread_pool s"
  by (simp add: get_pool_size_def Let_def wrappers)


lemma find_my_index_found:
  assumes "thread_pool s = Some tbl" and "pool_size s \<le> int (length (cells tbl))"
    and "int k < pool_size s" and "cells tbl ! k = thread"
    and "\<forall>j<k. cells tbl ! j \<noteq> thread"
  shows "find_my_index w thread s
           = Return (int k)
               (unlock_thread_pool w (lock_thread_pool w (snd (get_pool_size w s))))"
proof -
  let ?s2 = "lock_thread_pool w (snd (get_pool_size w s))"
  let ?n = "nat (pool_size s)"
  have tp: "thread_pool ?s2 = Some tbl" using assms(1) by simp
  have n: "?n \<le> length (cells tbl)" and kn: "k < ?n" using assms(2,3) by simp_all
  have none: "\<forall>j. 0 \<le> j \<and> j < k \<longrightarrow> cells tbl ! j \<noteq> thread" using assms(5) by simp
  from find_loop_found [OF tp n le0 kn assms(4) none] assms(3)
  have "find_loop thread 0 (pool_size s) ?s2 = Inr (int k)" by simp
  with assms(3) show ?thesis by (simp add: find_my_index_unfold)
qed












end
